theory Spec2Isabelle
  imports Main
begin

section \<open>JavaScript values\<close>

text \<open>
  The values an intent's properties hold, and the values the builder writes into a record.
  Numbers are the integers (the ids, order indices and status codes of the program) and the
  one non-number \<open>NaN\<close> that \<open>parseInt\<close> can return. \<open>Num n\<close> stands for the JavaScript
  number \<open>n\<close> when \<open>n\<close> is a safe integer, at most \<open>2^53 - 1\<close> in absolute value: there
  JavaScript's arithmetic and its conversions between numbers and strings are those of
  the integers, as modelled here. Beyond that range a JavaScript number is a rounded
  double with a different string form, which this model does not give; the properties
  that depend on digits are stated for safe integers. Strings are sequences of bytes
  (UTF-8).
\<close>

datatype jsprim = Undefined | Null | Bool bool | Num int | NaN | Str string

definition safe_integer :: "int \<Rightarrow> bool" where
  "safe_integer n = (\<bar>n\<bar> \<le> 9007199254740991)"

fun safe_number :: "jsprim \<Rightarrow> bool" where
  "safe_number (Num n) = safe_integer n"
| "safe_number v = True"

text \<open>ToBoolean: what \<open>!x\<close> and \<open>x || d\<close> test.\<close>

fun truthy :: "jsprim \<Rightarrow> bool" where
  "truthy Undefined = False"
| "truthy Null = False"
| "truthy (Bool b) = b"
| "truthy (Num n) = (n \<noteq> 0)"
| "truthy NaN = False"
| "truthy (Str s) = (s \<noteq> [])"

text \<open>\<open>a || d\<close>\<close>

definition js_or :: "jsprim \<Rightarrow> jsprim \<Rightarrow> jsprim" where
  "js_or a d = (if truthy a then a else d)"

subsection \<open>Numbers to strings\<close>

definition digit_char :: "nat \<Rightarrow> char" where
  "digit_char d = ''0123456789'' ! (d mod 10)"

fun nat_digits :: "nat \<Rightarrow> string" where
  "nat_digits n = (if n < 10 then [digit_char n] else nat_digits (n div 10) @ [digit_char (n mod 10)])"

declare nat_digits.simps [simp del]

definition int_digits :: "int \<Rightarrow> string" where
  "int_digits i = (if i < 0 then CHR ''-'' # nat_digits (nat (- i)) else nat_digits (nat i))"

text \<open>
  The abstract operation ToString, which template literals and \<open>+\<close> apply. For a number
  it writes the decimal digits, as JavaScript does for a safe integer.
\<close>

fun ToString :: "jsprim \<Rightarrow> string" where
  "ToString Undefined = ''undefined''"
| "ToString Null = ''null''"
| "ToString (Bool b) = (if b then ''true'' else ''false'')"
| "ToString (Num n) = int_digits n"
| "ToString NaN = ''NaN''"
| "ToString (Str s) = s"

datatype exn = Error string | TypeError string

text \<open>The method call \<open>x.toString()\<close>: a TypeError on \<open>undefined\<close> and \<open>null\<close>.\<close>

fun toString :: "jsprim \<Rightarrow> exn + string" where
  "toString Undefined = Inl (TypeError ''Cannot read properties of undefined'')"
| "toString Null = Inl (TypeError ''Cannot read properties of null'')"
| "toString v = Inr (ToString v)"

subsection \<open>Strings\<close>

text \<open>\<open>xs.join(sep)\<close> on an array of strings.\<close>

fun join :: "string \<Rightarrow> string list \<Rightarrow> string" where
  "join sep [] = []"
| "join sep [x] = x"
| "join sep (x # y # ys) = x @ sep @ join sep (y # ys)"

text \<open>
  White space, as \<open>trim\<close> and \<open>parseInt\<close> skip it (WhiteSpace and LineTerminator), in
  UTF-8: the single bytes TAB, LF, VT, FF, CR and SP; U+00A0 as two bytes; and as three
  bytes U+1680, U+2000 to U+200A, U+2028, U+2029, U+202F, U+205F, U+3000 and U+FEFF.
\<close>

definition space1 :: "char \<Rightarrow> bool" where
  "space1 a = (a \<in> set [CHR 0x09, CHR 0x0A, CHR 0x0B, CHR 0x0C, CHR 0x0D, CHR 0x20])"

definition space2 :: "char \<Rightarrow> char \<Rightarrow> bool" where
  "space2 a b = (a = CHR 0xC2 \<and> b = CHR 0xA0)"

definition space3 :: "char \<Rightarrow> char \<Rightarrow> char \<Rightarrow> bool" where
  "space3 a b c =
     ((a = CHR 0xE1 \<and> b = CHR 0x9A \<and> c = CHR 0x80)
      \<or> (a = CHR 0xE2 \<and> b = CHR 0x80
          \<and> ((0x80 \<le> (of_char c :: nat) \<and> (of_char c :: nat) \<le> 0x8A)
              \<or> c = CHR 0xA8 \<or> c = CHR 0xA9 \<or> c = CHR 0xAF))
      \<or> (a = CHR 0xE2 \<and> b = CHR 0x81 \<and> c = CHR 0x9F)
      \<or> (a = CHR 0xE3 \<and> b = CHR 0x80 \<and> c = CHR 0x80)
      \<or> (a = CHR 0xEF \<and> b = CHR 0xBB \<and> c = CHR 0xBF))"

text \<open>White space taken off the front of a string.\<close>

fun skip_space :: "string \<Rightarrow> string" where
  "skip_space (a # b # c # s) =
     (if space1 a then skip_space (b # c # s)
      else if space2 a b then skip_space (c # s)
      else if space3 a b c then skip_space s
      else a # b # c # s)"
| "skip_space [a, b] =
     (if space1 a then skip_space [b] else if space2 a b then [] else [a, b])"
| "skip_space [a] = (if space1 a then [] else [a])"
| "skip_space [] = []"

text \<open>
  White space taken off the end, on the reversed string: the bytes of a character come
  last byte first.
\<close>

fun skip_space_rev :: "string \<Rightarrow> string" where
  "skip_space_rev (c # b # a # s) =
     (if space1 c then skip_space_rev (b # a # s)
      else if space2 b c then skip_space_rev (a # s)
      else if space3 a b c then skip_space_rev s
      else c # b # a # s)"
| "skip_space_rev [c, b] =
     (if space1 c then skip_space_rev [b] else if space2 b c then [] else [c, b])"
| "skip_space_rev [c] = (if space1 c then [] else [c])"
| "skip_space_rev [] = []"

definition trim :: "string \<Rightarrow> string" where
  "trim s = rev (skip_space_rev (rev (skip_space s)))"

subsection \<open>parseInt\<close>

definition digit_val :: "char \<Rightarrow> nat option" where
  "digit_val c =
     (let n = (of_char c :: nat) in
      if 48 \<le> n \<and> n \<le> 57 then Some (n - 48)
      else if 97 \<le> n \<and> n \<le> 122 then Some (n - 87)
      else if 65 \<le> n \<and> n \<le> 90 then Some (n - 55)
      else None)"

text \<open>The longest prefix of digits of the radix, as their values.\<close>

fun radix_digits :: "nat \<Rightarrow> string \<Rightarrow> nat list" where
  "radix_digits R [] = []"
| "radix_digits R (c # cs) =
     (case digit_val c of
        None \<Rightarrow> []
      | Some d \<Rightarrow> if d < R then d # radix_digits R cs else [])"

definition radix_value :: "nat \<Rightarrow> nat list \<Rightarrow> nat" where
  "radix_value R ds = foldl (\<lambda>acc d. acc * R + d) 0 ds"

text \<open>
  \<open>parseInt(s)\<close> with no radix: leading white space, a sign, a \<open>0x\<close> prefix for
  hexadecimal, then the digits up to the first character that is none; \<open>NaN\<close> when there
  is no digit. The result is the integer the digits denote; it is JavaScript's result
  when it is a safe integer.
\<close>

definition parseInt :: "string \<Rightarrow> jsprim" where
  "parseInt s =
     (let S = skip_space s;
          sign = (if take 1 S = ''-'' then - 1 else 1 :: int);
          S = (if take 1 S = ''-'' \<or> take 1 S = ''+'' then drop 1 S else S);
          hex = (take 2 S = ''0x'' \<or> take 2 S = ''0X'');
          R = (if hex then 16 else 10);
          S = (if hex then drop 2 S else S);
          Z = radix_digits R S
      in if Z = [] then NaN else Num (sign * int (radix_value R Z)))"

section \<open>Objects and JSON\<close>

text \<open>
  An intent is an object whose properties hold primitive values; reading a property the
  object does not have gives \<open>undefined\<close>.
\<close>

type_synonym intent = "string \<rightharpoonup> jsprim"

definition field :: "intent \<Rightarrow> string \<Rightarrow> jsprim" where
  "field obj k = (case obj k of None \<Rightarrow> Undefined | Some v \<Rightarrow> v)"

text \<open>The objects the builder makes: properties in the order the literal writes them.\<close>

datatype jsval = Prim jsprim | Object "(string \<times> jsval) list" | Array "jsval list"

datatype json =
  JNull | JBool bool | JNumber int | JString string
  | JArray "json list" | JObject "(string \<times> json) list"

text \<open>
  What \<open>JSON.stringify\<close> keeps of a value (\<open>None\<close> is \<open>undefined\<close>): a property whose value
  is \<open>undefined\<close> is left out, an array element that is \<open>undefined\<close> becomes \<open>null\<close>, and
  so does \<open>NaN\<close>.
\<close>

primrec serialize :: "jsval \<Rightarrow> json option" where
  "serialize (Prim p) =
     (case p of
        Undefined \<Rightarrow> None
      | Null \<Rightarrow> Some JNull
      | Bool b \<Rightarrow> Some (JBool b)
      | Num n \<Rightarrow> Some (JNumber n)
      | NaN \<Rightarrow> Some JNull
      | Str s \<Rightarrow> Some (JString s))"
| "serialize (Object kvs) =
     Some (JObject (List.map_filter (\<lambda>(k, j). map_option (Pair k) j)
                      (map (map_prod id serialize) kvs)))"
| "serialize (Array xs) =
     Some (JArray (map (\<lambda>j. case j of None \<Rightarrow> JNull | Some v \<Rightarrow> v) (map serialize xs)))"

text \<open>The text of a JSON value, with no white space, as \<open>JSON.stringify\<close> writes it.\<close>

definition hex_char :: "nat \<Rightarrow> char" where
  "hex_char d = ''0123456789abcdef'' ! (d mod 16)"

definition escape_char :: "char \<Rightarrow> string" where
  "escape_char c =
     (if c = CHR 0x22 then [CHR 0x5C, CHR 0x22]
      else if c = CHR 0x5C then [CHR 0x5C, CHR 0x5C]
      else if c = CHR 0x08 then [CHR 0x5C, CHR ''b'']
      else if c = CHR 0x0C then [CHR 0x5C, CHR ''f'']
      else if c = CHR 0x0A then [CHR 0x5C, CHR ''n'']
      else if c = CHR 0x0D then [CHR 0x5C, CHR ''r'']
      else if c = CHR 0x09 then [CHR 0x5C, CHR ''t'']
      else if (of_char c :: nat) < 32
        then [CHR 0x5C, CHR ''u'', CHR ''0'', CHR ''0'',
              hex_char (of_char c div 16), hex_char (of_char c mod 16)]
      else [c])"

definition quote :: "string \<Rightarrow> string" where
  "quote s = [CHR 0x22] @ concat (map escape_char s) @ [CHR 0x22]"

primrec json_text :: "json \<Rightarrow> string" where
  "json_text JNull = ''null''"
| "json_text (JBool b) = (if b then ''true'' else ''false'')"
| "json_text (JNumber n) = int_digits n"
| "json_text (JString s) = quote s"
| "json_text (JArray xs) = ''['' @ join '','' (map json_text xs) @ '']''"
| "json_text (JObject kvs) =
     ''{'' @ join '','' (map (\<lambda>(k, t). quote k @ '':'' @ t) (map (map_prod id json_text) kvs)) @ ''}''"

definition JSON_stringify :: "jsval \<Rightarrow> string option" where
  "JSON_stringify v = map_option json_text (serialize v)"

section \<open>The override builder: addOverride\<close>

text \<open>
  \<open>addOverride(certificateId, overrideData = {})\<close> of
  \<open>add_override(s)_to_specific_certificate_with_basic_validation.js\<close>. The argument is
  left out, a single intent, or an array of intents. What the function writes to the
  console is left out of the model; the requests it issues are kept.
\<close>

datatype overrideData = Omitted | Single intent | Many "intent list"

text \<open>\<open>Array.isArray(overrideData) ? overrideData : [overrideData]\<close>, after the default.\<close>

definition overridesArray :: "overrideData \<Rightarrow> intent list" where
  "overridesArray overrideData =
     (case overrideData of
        Many xs \<Rightarrow> xs
      | Single x \<Rightarrow> [x]
      | Omitted \<Rightarrow> [Map.empty])"

text \<open>The six checks of one intent, in the order of the source; each pushes its message.\<close>

definition overrideErrors :: "intent \<Rightarrow> string list" where
  "overrideErrors override =
     (let errs = [];
          errs = (if \<not> truthy (field override ''tagNumber'')
                  then errs @ [''tagNumber is required''] else errs);
          errs = (if \<not> truthy (field override ''description'')
                  then errs @ [''description is required''] else errs);
          errs = (if \<not> truthy (field override ''typeId'')
                  then errs @ [''typeId is required''] else errs);
          errs = (if \<not> truthy (field override ''methodId'')
                  then errs @ [''methodId is required''] else errs);
          errs = (if \<not> truthy (field override ''appliedStateId'')
                  then errs @ [''appliedStateId is required''] else errs);
          errs = (if \<not> truthy (field override ''removedStateId'')
                  then errs @ [''removedStateId is required''] else errs)
      in errs)"

text \<open>The \<open>forEach\<close> over the array, with the index of each element.\<close>

definition validationErrors :: "intent list \<Rightarrow> string list" where
  "validationErrors xs =
     foldl (\<lambda>errs (index, override).
              if length (overrideErrors override) > 0
              then errs @ [''Override '' @ nat_digits (index + 1) @ '': ''
                           @ join '', '' (overrideErrors override)]
              else errs)
       [] (enumerate 0 xs)"

definition bind_exn :: "exn + 'a \<Rightarrow> ('a \<Rightarrow> exn + 'b) \<Rightarrow> exn + 'b" where
  "bind_exn m f = (case m of Inl e \<Rightarrow> Inl e | Inr x \<Rightarrow> f x)"

text \<open>The title of the state "not applied", in Russian, as its UTF-8 bytes.\<close>

definition not_applied_title :: string where
  "not_applied_title =
     [CHR 0xD0, CHR 0x9D, CHR 0xD0, CHR 0xB5, CHR 0x20, CHR 0xD0, CHR 0xBF, CHR 0xD1, CHR 0x80,
      CHR 0xD0, CHR 0xB8, CHR 0xD0, CHR 0xBC, CHR 0xD0, CHR 0xB5, CHR 0xD0, CHR 0xBD, CHR 0xD0,
      CHR 0xB5, CHR 0xD0, CHR 0xBD, CHR 0xD0, CHR 0xBE]"

text \<open>
  The object literal of \<open>createNewOverride\<close>. The four \<open>toString()\<close> calls are the places
  where building the object can throw.
\<close>

definition createNewOverride :: "string \<Rightarrow> intent \<Rightarrow> nat \<Rightarrow> exn + jsval" where
  "createNewOverride certificateId override index =
     bind_exn (toString (field override ''typeId'')) (\<lambda>typeId.
     bind_exn (toString (field override ''methodId'')) (\<lambda>methodId.
     bind_exn (toString (field override ''appliedStateId'')) (\<lambda>appliedStateId.
     bind_exn (toString (field override ''removedStateId'')) (\<lambda>removedStateId.
     Inr (Object [
       (''TagNumber'', Prim (field override ''tagNumber'')),
       (''Description'', Prim (field override ''description'')),
       (''OverrideTypeId'', Prim (Str typeId)),
       (''OverrideMethodId'', Prim (Str methodId)),
       (''OverrideAppliedStateId'', Prim (Str appliedStateId)),
       (''OverrideRemovedStateId'', Prim (Str removedStateId)),
       (''Comment'', Prim (js_or (field override ''comment'') (Str ''''))),
       (''AdditionalValueAppliedState'',
          Prim (js_or (field override ''additionalValue'') (Str ''''))),
       (''OverrideType'',
          Object [(''Title'', Prim (js_or (field override ''typeTitle'') (Str '''')))]),
       (''OverrideMethod'',
          Object [(''Title'', Prim (js_or (field override ''methodTitle'') (Str '''')))]),
       (''OverrideAppliedState'',
          Object [(''Title'', Prim (js_or (field override ''appliedStateTitle'') (Str '''')))]),
       (''OverrideRemovedState'',
          Object [(''Title'', Prim (js_or (field override ''removedStateTitle'') (Str '''')))]),
       (''CurrentOverrideStateId'', Prim (Str ''5'')),
       (''CurrentState'', Object [(''Title'', Prim (Str not_applied_title))]),
       (''OrderId'', Prim (Num (int index + 1))),
       (''OverrideIndex'', Prim (Num (int index + 1))),
       (''SystemOverrideCertificateId'', Prim (parseInt certificateId)),
       (''Id'', Prim Undefined),
       (''SystemOverrideCertificate'', Prim Null),
       (''OverrideTypes'', Prim Null),
       (''OverrideMethods'', Prim Null),
       (''OverrideAppliedStates'', Prim Null),
       (''OverrideRemovedStates'', Prim Null),
       (''OverrideCurrentStates'', Prim Null),
       (''OverridesJson'', Prim Null),
       (''Overrides'', Array []),
       (''ReturnUrl'', Prim Null),
       (''AdditionalValueRemovedState'', Prim Null),
       (''Title'', Prim Null),
       (''TypeMethod'',
          Prim (Str (trim (ToString (js_or (field override ''typeTitle'') (Str '''')) @ '' / ''
                           @ ToString (js_or (field override ''methodTitle'') (Str '''')))))),
       (''IsUnableToImplement'', Prim (Bool False)),
       (''UnableToImplementReason'', Prim Null),
       (''IsEditable'', Prim (Bool False))])))))"

text \<open>\<open>xs.map(f)\<close> where \<open>f\<close> can throw: the first exception ends the loop.\<close>

fun map_exn :: "('a \<Rightarrow> exn + 'b) \<Rightarrow> 'a list \<Rightarrow> exn + 'b list" where
  "map_exn f [] = Inr []"
| "map_exn f (x # xs) =
     bind_exn (f x) (\<lambda>y. bind_exn (map_exn f xs) (\<lambda>ys. Inr (y # ys)))"

definition submissionOverrides :: "string \<Rightarrow> intent list \<Rightarrow> exn + jsval list" where
  "submissionOverrides certificateId xs =
     map_exn (\<lambda>(index, override). createNewOverride certificateId override index)
       (enumerate 0 xs)"

subsection \<open>The request\<close>

text \<open>
  A \<open>FormData\<close> is the list of its entries in the order they were appended. \<open>Date.now()\<close>
  is the argument \<open>now\<close>.
\<close>

type_synonym formdata = "(string \<times> string) list"

definition formData :: "nat \<Rightarrow> string \<Rightarrow> jsval list \<Rightarrow> formdata" where
  "formData now certificateId overrides =
     [(''SystemOverrideCertificateId'', certificateId),
      (''TagNumber'', ''''),
      (''Description'', ''''),
      (''OverrideTypeId'', ''''),
      (''OverrideMethodId'', ''''),
      (''Comment'', ''''),
      (''OverrideAppliedStateId'', ''''),
      (''AdditionalValueAppliedState'', ''''),
      (''OverrideRemovedStateId'', ''''),
      (''CurrentOverrideStateId'', ''5''),
      (''OverridesJson'',
         (case JSON_stringify (Array overrides) of None \<Rightarrow> ''undefined'' | Some t \<Rightarrow> t)),
      (''__RequestVerificationToken'', ''dummy-token-'' @ nat_digits now)]"

record request =
  url :: string
  http_method :: string
  body :: formdata

definition submitUrl :: "string \<Rightarrow> string" where
  "submitUrl certificateId =
     ''https://eptw-training.sakhalinenergy.ru'' @ ''/SOC/EditOverrides/'' @ certificateId"

text \<open>
  What \<open>fetch\<close> gives back: a response, whatever its status, or a rejection when no
  response arrived. \<open>response.ok\<close> is true for the statuses 200 to 299.
\<close>

record response =
  status :: nat
  statusText :: string
  responseBody :: string

definition ok :: "response \<Rightarrow> bool" where
  "ok r = (200 \<le> status r \<and> status r \<le> 299)"

datatype fetch_result = Responded response | Failed exn

text \<open>
  How a call ends: an exception thrown before a promise exists, or the promise returned,
  rejected or resolved.
\<close>

datatype outcome = Thrown exn | Rejected exn | Resolved response

text \<open>
  The whole function. The first component of the result is the list of the requests the
  call issued, in order; \<open>fetch\<close> is the network, answering a request.
\<close>

definition addOverride ::
  "(request \<Rightarrow> fetch_result) \<Rightarrow> nat \<Rightarrow> string \<Rightarrow> overrideData \<Rightarrow> request list \<times> outcome" where
  "addOverride fetch now certificateId overrideData =
     (let xs = overridesArray overrideData;
          errors = validationErrors xs
      in if length errors > 0
         then ([], Thrown (Error (''Validation failed:'' @ [CHR 0x0A] @ join [CHR 0x0A] errors)))
         else
           (case submissionOverrides certificateId xs of
              Inl e \<Rightarrow> ([], Thrown e)
            | Inr overrides \<Rightarrow>
                (let req = \<lparr>url = submitUrl certificateId, http_method = ''POST'',
                            body = formData now certificateId overrides\<rparr>
                 in ([req],
                     (case fetch req of
                        Responded response \<Rightarrow>
                          if ok response then Resolved response
                          else Rejected (Error (''Server error: '' @ nat_digits (status response)
                                                @ '' '' @ statusText response))
                      | Failed e \<Rightarrow> Rejected e)))))"

section \<open>The single-override builder\<close>

text \<open>
  \<open>createNewOverride(index)\<close> of \<open>add_an_override_using_temp_DOM_injection.js\<close>, the
  earlier builder: it reads the one object \<open>overrideData\<close> and fills what is left out with
  defaults, so its \<open>toString()\<close> calls never meet \<open>undefined\<close>. The default titles are
  Russian text, given as their UTF-8 bytes.
\<close>

definition default_description :: string where
  "default_description =
     [CHR 0xD0, CHR 0x90, CHR 0xD0, CHR 0xB2, CHR 0xD1, CHR 0x82, CHR 0xD0, CHR 0xBE,
      CHR 0xD0, CHR 0xBC, CHR 0xD0, CHR 0xB0, CHR 0xD1, CHR 0x82, CHR 0xD0, CHR 0xB8,
      CHR 0xD1, CHR 0x87, CHR 0xD0, CHR 0xB5, CHR 0xD1, CHR 0x81, CHR 0xD0, CHR 0xBA,
      CHR 0xD0, CHR 0xBE, CHR 0xD0, CHR 0xB5, CHR 0x20, CHR 0xD0, CHR 0xBF, CHR 0xD0,
      CHR 0xB5, CHR 0xD1, CHR 0x80, CHR 0xD0, CHR 0xB5, CHR 0xD0, CHR 0xBE, CHR 0xD0,
      CHR 0xBF, CHR 0xD1, CHR 0x80, CHR 0xD0, CHR 0xB5, CHR 0xD0, CHR 0xB4, CHR 0xD0,
      CHR 0xB5, CHR 0xD0, CHR 0xBB, CHR 0xD0, CHR 0xB5, CHR 0xD0, CHR 0xBD, CHR 0xD0,
      CHR 0xB8, CHR 0xD0, CHR 0xB5]"

definition default_typeTitle :: string where
  "default_typeTitle =
     [CHR 0xD0, CHR 0x9F, CHR 0xD1, CHR 0x80, CHR 0xD0, CHR 0xBE, CHR 0xD0, CHR 0xB3,
      CHR 0xD1, CHR 0x80, CHR 0xD0, CHR 0xB0, CHR 0xD0, CHR 0xBC, CHR 0xD0, CHR 0xBC,
      CHR 0xD0, CHR 0xBD, CHR 0xD0, CHR 0xB0, CHR 0xD1, CHR 0x8F, CHR 0x20, CHR 0xD0,
      CHR 0xB1, CHR 0xD0, CHR 0xBB, CHR 0xD0, CHR 0xBE, CHR 0xD0, CHR 0xBA, CHR 0xD0,
      CHR 0xB8, CHR 0xD1, CHR 0x80, CHR 0xD0, CHR 0xBE, CHR 0xD0, CHR 0xB2, CHR 0xD0,
      CHR 0xBA, CHR 0xD0, CHR 0xB0, CHR 0x20, CHR 0xD0, CHR 0xBF, CHR 0xD1, CHR 0x80,
      CHR 0xD0, CHR 0xB8, CHR 0x20, CHR 0xD1, CHR 0x82, CHR 0xD0, CHR 0xB5, CHR 0xD1,
      CHR 0x85, CHR 0x2E, CHR 0xD0, CHR 0xBE, CHR 0xD0, CHR 0xB1, CHR 0xD1, CHR 0x81,
      CHR 0xD0, CHR 0xBB, CHR 0xD1, CHR 0x83, CHR 0xD0, CHR 0xB6, CHR 0xD0, CHR 0xB8,
      CHR 0xD0, CHR 0xB2, CHR 0xD0, CHR 0xB0, CHR 0xD0, CHR 0xBD, CHR 0xD0, CHR 0xB8,
      CHR 0xD0, CHR 0xB8]"

definition default_methodTitle :: string where
  "default_methodTitle =
     [CHR 0xD0, CHR 0xA3, CHR 0xD1, CHR 0x81, CHR 0xD1, CHR 0x82, CHR 0xD0, CHR 0xB0,
      CHR 0xD0, CHR 0xBD, CHR 0xD0, CHR 0xBE, CHR 0xD0, CHR 0xB2, CHR 0xD0, CHR 0xB8,
      CHR 0xD1, CHR 0x82, CHR 0xD1, CHR 0x8C, CHR 0x20, CHR 0x4D, CHR 0x4F, CHR 0x53]"

definition default_appliedStateTitle :: string where
  "default_appliedStateTitle =
     [CHR 0x4D, CHR 0x4F, CHR 0x53, CHR 0x20, CHR 0xD0, CHR 0xB2, CHR 0xD0, CHR 0xBA,
      CHR 0xD0, CHR 0xBB, CHR 0xD1, CHR 0x8E, CHR 0xD1, CHR 0x87, CHR 0xD0, CHR 0xB5,
      CHR 0xD0, CHR 0xBD]"

definition default_removedStateTitle :: string where
  "default_removedStateTitle =
     [CHR 0x4D, CHR 0x4F, CHR 0x53, CHR 0x20, CHR 0xD0, CHR 0xB2, CHR 0xD1, CHR 0x8B,
      CHR 0xD0, CHR 0xBA, CHR 0xD0, CHR 0xBB, CHR 0xD1, CHR 0x8E, CHR 0xD1, CHR 0x87,
      CHR 0xD0, CHR 0xB5, CHR 0xD0, CHR 0xBD]"

definition createNewOverride_single :: "nat \<Rightarrow> string \<Rightarrow> intent \<Rightarrow> nat \<Rightarrow> exn + jsval" where
  "createNewOverride_single now certificateId overrideData index =
     bind_exn (toString (js_or (field overrideData ''typeId'') (Num 2))) (\<lambda>typeId.
     bind_exn (toString (js_or (field overrideData ''methodId'') (Num 2))) (\<lambda>methodId.
     bind_exn (toString (js_or (field overrideData ''appliedStateId'') (Num 3))) (\<lambda>appliedStateId.
     bind_exn (toString (js_or (field overrideData ''removedStateId'') (Num 4))) (\<lambda>removedStateId.
     Inr (Object [
       (''TagNumber'',
          Prim (js_or (field overrideData ''tagNumber'') (Str (''AUTO-TAG-'' @ nat_digits now)))),
       (''Description'',
          Prim (js_or (field overrideData ''description'') (Str default_description))),
       (''OverrideTypeId'', Prim (Str typeId)),
       (''OverrideType'',
          Object [(''Title'',
                   Prim (js_or (field overrideData ''typeTitle'') (Str default_typeTitle)))]),
       (''OverrideMethodId'', Prim (Str methodId)),
       (''OverrideMethod'',
          Object [(''Title'',
                   Prim (js_or (field overrideData ''methodTitle'') (Str default_methodTitle)))]),
       (''Comment'', Prim (js_or (field overrideData ''comment'') (Str ''''))),
       (''OverrideAppliedStateId'', Prim (Str appliedStateId)),
       (''OverrideAppliedState'',
          Object [(''Title'', Prim (js_or (field overrideData ''appliedStateTitle'')
                                      (Str default_appliedStateTitle)))]),
       (''OverrideRemovedStateId'', Prim (Str removedStateId)),
       (''OverrideRemovedState'',
          Object [(''Title'', Prim (js_or (field overrideData ''removedStateTitle'')
                                      (Str default_removedStateTitle)))]),
       (''CurrentOverrideStateId'', Prim (Str ''5'')),
       (''CurrentState'', Object [(''Title'', Prim (Str not_applied_title))]),
       (''AdditionalValueAppliedState'',
          Prim (js_or (field overrideData ''additionalValue'') (Str ''''))),
       (''OrderId'', Prim (Num (int index))),
       (''OverrideIndex'', Prim (Num (int index))),
       (''SystemOverrideCertificateId'', Prim (parseInt certificateId)),
       (''Id'', Prim Undefined),
       (''SystemOverrideCertificate'', Prim Null),
       (''OverrideTypes'', Prim Null),
       (''OverrideMethods'', Prim Null),
       (''OverrideAppliedStates'', Prim Null),
       (''OverrideRemovedStates'', Prim Null),
       (''OverrideCurrentStates'', Prim Null),
       (''TypeMethod'',
          Prim (Str (ToString (js_or (field overrideData ''typeTitle'') (Str default_typeTitle))
                     @ '' / ''
                     @ ToString (js_or (field overrideData ''methodTitle'')
                                   (Str default_methodTitle))))),
       (''OverridesJson'', Prim Null),
       (''Overrides'', Array []),
       (''ReturnUrl'', Prim Null),
       (''IsUnableToImplement'', Prim (Bool False)),
       (''UnableToImplementReason'', Prim Null),
       (''IsEditable'', Prim (Bool False)),
       (''AdditionalValueRemovedState'', Prim Null),
       (''Title'', Prim Null)])))))"

section \<open>Vocabulary of the properties\<close>

text \<open>The six properties the validation of \<open>addOverride\<close> tests, in its order.\<close>

definition required_fields :: "string list" where
  "required_fields = [''tagNumber'', ''description'', ''typeId'', ''methodId'', ''appliedStateId'', ''removedStateId'']"

text \<open>An intent passes the validation when each of the six holds a truthy value.\<close>

definition valid_intent :: "intent \<Rightarrow> bool" where
  "valid_intent obj = (\<forall>f \<in> set required_fields. truthy (field obj f))"

text \<open>The required properties whose value is not truthy: left out, or falsy.\<close>

definition missing_fields :: "intent \<Rightarrow> string list" where
  "missing_fields obj = filter (\<lambda>f. \<not> truthy (field obj f)) required_fields"

text \<open>The line of the error message for the intent at an index (counted from 0).\<close>

definition error_line :: "nat \<times> intent \<Rightarrow> string" where
  "error_line p = ''Override '' @ nat_digits (fst p + 1) @ '': '' @ join '', '' (overrideErrors (snd p))"

text \<open>An intent lacks a property when the object does not have it at all.\<close>

definition lacks :: "intent \<Rightarrow> string \<Rightarrow> bool" where
  "lacks obj f = (obj f = None)"

text \<open>The properties of an intent that the two builders read.\<close>

definition read_fields :: "string list" where
  "read_fields = [''tagNumber'', ''description'', ''typeId'', ''methodId'', ''appliedStateId'',
                  ''removedStateId'', ''comment'', ''additionalValue'', ''typeTitle'',
                  ''methodTitle'', ''appliedStateTitle'', ''removedStateTitle'']"

text \<open>An object with one property taken out.\<close>

fun without :: "string \<Rightarrow> jsval \<Rightarrow> jsval" where
  "without k (Object kvs) = Object (filter (\<lambda>p. fst p \<noteq> k) kvs)"
| "without k v = v"

text \<open>
  The cross-entity condition of the specification (section 4.4), in its words: the method
  is among the methods the catalog gives for the type, and the applied and removed states
  are among the states the catalog gives for the method. The program has no catalog and
  no such check; the definition is here to state the condition.
\<close>

record catalog =
  methodsForType :: "int \<Rightarrow> int list"
  statesForMethod :: "int \<Rightarrow> int list \<times> int list"

definition consistent :: "catalog \<Rightarrow> intent \<Rightarrow> bool" where
  "consistent cat obj =
     (case (field obj ''typeId'', field obj ''methodId'',
            field obj ''appliedStateId'', field obj ''removedStateId'') of
        (Num t, Num m, Num a, Num r) \<Rightarrow>
          m \<in> set (methodsForType cat t)
          \<and> a \<in> set (fst (statesForMethod cat m))
          \<and> r \<in> set (snd (statesForMethod cat m))
      | _ \<Rightarrow> False)"

subsection \<open>Inputs\<close>

text \<open>
  The hardware bypass of the end-to-end scenario; the second intent of the usage notes at
  the end of the source file; an intent whose \<open>tagNumber\<close> is the empty string and whose
  \<open>description\<close> is left out; one whose \<open>typeId\<close> is 0; and a forced value with an
  \<open>additionalValue\<close>.
\<close>

definition valve :: intent where
  "valve = [''tagNumber'' \<mapsto> Str ''VALVE-001'', ''description'' \<mapsto> Str ''Bypass'',
            ''typeId'' \<mapsto> Num 1, ''methodId'' \<mapsto> Num 1, ''appliedStateId'' \<mapsto> Num 1,
            ''removedStateId'' \<mapsto> Num 2]"

definition tag2 :: intent where
  "tag2 = [''tagNumber'' \<mapsto> Str ''TAG-2'', ''description'' \<mapsto> Str ''Desc 2'',
            ''typeId'' \<mapsto> Num 2, ''methodId'' \<mapsto> Num 2, ''appliedStateId'' \<mapsto> Num 3,
            ''removedStateId'' \<mapsto> Num 4]"

definition blank_tag :: intent where
  "blank_tag = [''tagNumber'' \<mapsto> Str '''', ''typeId'' \<mapsto> Num 2, ''methodId'' \<mapsto> Num 2,
                ''appliedStateId'' \<mapsto> Num 3, ''removedStateId'' \<mapsto> Num 4]"

definition zero_type :: intent where
  "zero_type = [''tagNumber'' \<mapsto> Str ''TAG-1'', ''description'' \<mapsto> Str ''Desc 1'',
                ''typeId'' \<mapsto> Num 0, ''methodId'' \<mapsto> Num 2, ''appliedStateId'' \<mapsto> Num 3,
                ''removedStateId'' \<mapsto> Num 4]"

definition forced_level :: intent where
  "forced_level = [''tagNumber'' \<mapsto> Str ''LVL-001'', ''description'' \<mapsto> Str ''Level gauge'',
                   ''typeId'' \<mapsto> Num 3, ''methodId'' \<mapsto> Num 4, ''appliedStateId'' \<mapsto> Num 12,
                   ''removedStateId'' \<mapsto> Num 13, ''additionalValue'' \<mapsto> Str ''50%'']"

text \<open>A catalog in which method 1 belongs to type 2, with the states 1 and 2.\<close>

definition method1_of_type2 :: catalog where
  "method1_of_type2 =
     \<lparr>methodsForType = (\<lambda>t. if t = 2 then [1] else []),
      statesForMethod = (\<lambda>m. if m = 1 then ([1], [2]) else ([], []))\<rparr>"

text \<open>
  Networks: one that never answers, and one that answers every request with a given
  response. Three responses: an acceptance, and two rejections that differ in the body
  only.
\<close>

definition no_response :: "request \<Rightarrow> fetch_result" where
  "no_response req = Failed (TypeError ''Failed to fetch'')"

definition answers :: "response \<Rightarrow> request \<Rightarrow> fetch_result" where
  "answers r req = Responded r"

definition accepted :: response where
  "accepted = \<lparr>status = 200, statusText = ''OK'', responseBody = ''''\<rparr>"

definition rejection_duplicate :: response where
  "rejection_duplicate =
     \<lparr>status = 500, statusText = ''Internal Server Error'', responseBody = ''Duplicate tag''\<rparr>"

definition rejection_closed :: response where
  "rejection_closed =
     \<lparr>status = 500, statusText = ''Internal Server Error'',
      responseBody = ''Certificate is closed''\<rparr>"

section \<open>The validation loop\<close>

lemma overrideErrors_filter:
  "overrideErrors obj = map (\<lambda>f. f @ '' is required'') (missing_fields obj)"
  by (simp add: overrideErrors_def missing_fields_def required_fields_def)

lemma overrideErrors_Nil: "overrideErrors obj = [] \<longleftrightarrow> valid_intent obj"
  by (simp add: overrideErrors_filter missing_fields_def valid_intent_def filter_empty_conv)

lemma validation_foldl:
  "foldl (\<lambda>errs (index, override).
              if length (overrideErrors override) > 0
              then errs @ [''Override '' @ nat_digits (index + 1) @ '': ''
                           @ join '', '' (overrideErrors override)]
              else errs) acc ps
   = acc @ map error_line (filter (\<lambda>p. overrideErrors (snd p) \<noteq> []) ps)"
  by (induction ps arbitrary: acc) (auto simp: error_line_def)

lemma validationErrors_filter:
  "validationErrors xs = map error_line (filter (\<lambda>p. overrideErrors (snd p) \<noteq> []) (enumerate 0 xs))"
  unfolding validationErrors_def validation_foldl by simp

lemma ball_enumerate_snd: "(\<forall>p \<in> set (enumerate n xs). P (snd p)) \<longleftrightarrow> (\<forall>x \<in> set xs. P x)"
proof -
  have "set xs = snd ` set (enumerate n xs)"
    by (simp flip: set_map)
  then show ?thesis by simp
qed

lemma validationErrors_Nil: "validationErrors xs = [] \<longleftrightarrow> (\<forall>obj \<in> set xs. valid_intent obj)"
  by (simp add: validationErrors_filter filter_empty_conv overrideErrors_Nil ball_enumerate_snd)

section \<open>Building the batch\<close>

lemma toString_truthy: "truthy v \<Longrightarrow> toString v = Inr (ToString v)"
  by (cases v) simp_all

lemma valid_intent_fields:
  "valid_intent obj \<Longrightarrow> truthy (field obj ''tagNumber'') \<and> truthy (field obj ''description'')
     \<and> truthy (field obj ''typeId'') \<and> truthy (field obj ''methodId'')
     \<and> truthy (field obj ''appliedStateId'') \<and> truthy (field obj ''removedStateId'')"
  by (simp add: valid_intent_def required_fields_def)

lemma map_exn_Inr_iff:
  "map_exn f ps = Inr ys \<longleftrightarrow> length ys = length ps \<and> (\<forall>i < length ps. f (ps ! i) = Inr (ys ! i))"
proof (induction ps arbitrary: ys)
  case Nil
  then show ?case by auto
next
  case (Cons p ps)
  show ?case
  proof (cases "f p")
    case (Inl e)
    then show ?thesis by (auto simp: bind_exn_def)
  next
    case (Inr y)
    note fp = this
    show ?thesis
    proof (cases "map_exn f ps")
      case (Inl e)
      with Cons.IH have "\<And>zs. \<not> (length zs = length ps \<and> (\<forall>i < length ps. f (ps ! i) = Inr (zs ! i)))"
        by simp
      then have "\<not> (length ys = length (p # ps) \<and> (\<forall>i < length (p # ps). f ((p # ps) ! i) = Inr (ys ! i)))"
        by (cases ys) (auto simp: nth_Cons split: nat.splits)
      with Inl fp show ?thesis by (simp add: bind_exn_def)
    next
      case (Inr zs)
      with Cons.IH[of zs] have zs: "length zs = length ps" "\<forall>i < length ps. f (ps ! i) = Inr (zs ! i)"
        by simp_all
      have "map_exn f (p # ps) = Inr (y # zs)"
        using fp Inr by (simp add: bind_exn_def)
      moreover have "ys = y # zs" if "length ys = length (p # ps)"
        "\<forall>i < length (p # ps). f ((p # ps) ! i) = Inr (ys ! i)"
      proof -
        from that(1) obtain y' ys' where ys: "ys = y' # ys'" by (cases ys) auto
        from that(2) have "f p = Inr y'" using ys by auto
        with fp have "y' = y" by simp
        from that(2) have "\<forall>i < length ps. f (ps ! i) = Inr (ys' ! i)" using ys by auto
        with zs have "\<forall>i < length ps. ys' ! i = zs ! i" by simp
        with that(1) zs(1) ys have "ys' = zs" by (simp add: list_eq_iff_nth_eq)
        with \<open>y' = y\<close> ys show ?thesis by simp
      qed
      moreover have "length (y # zs) = length (p # ps) \<and> (\<forall>i < length (p # ps). f ((p # ps) ! i) = Inr ((y # zs) ! i))"
        using zs fp by (auto simp: nth_Cons split: nat.splits)
      ultimately show ?thesis by auto
    qed
  qed
qed

lemma map_exn_total:
  "(\<forall>p \<in> set ps. \<exists>y. f p = Inr y) \<Longrightarrow> \<exists>ys. map_exn f ps = Inr ys"
  by (induction ps) (auto simp: bind_exn_def)

lemma createNewOverride_order:
  assumes "valid_intent obj"
  shows "\<exists>kvs. createNewOverride cid obj i = Inr (Object kvs)
           \<and> map_of kvs ''TagNumber'' = Some (Prim (field obj ''tagNumber''))
           \<and> map_of kvs ''OrderId'' = Some (Prim (Num (int i + 1)))
           \<and> map_of kvs ''OverrideIndex'' = Some (Prim (Num (int i + 1)))
           \<and> map_of kvs ''SystemOverrideCertificateId'' = Some (Prim (parseInt cid))"
  using valid_intent_fields[OF assms]
  by (simp add: createNewOverride_def bind_exn_def toString_truthy)

lemma submissionOverrides_valid:
  assumes "\<forall>obj \<in> set xs. valid_intent obj"
  shows "\<exists>recs. submissionOverrides cid xs = Inr recs \<and> length recs = length xs
           \<and> (\<forall>i < length xs. createNewOverride cid (xs ! i) i = Inr (recs ! i))"
proof -
  let ?f = "\<lambda>(index, override). createNewOverride cid override index"
  have "\<forall>p \<in> set (enumerate 0 xs). \<exists>y. ?f p = Inr y"
  proof
    fix p assume "p \<in> set (enumerate 0 xs)"
    then have "snd p \<in> set xs"
      using nth_mem[of "fst p" xs] by (auto simp: in_set_enumerate_eq)
    with assms have "valid_intent (snd p)" by simp
    from createNewOverride_order[OF this, of cid "fst p"]
    show "\<exists>y. ?f p = Inr y" by (auto simp: case_prod_beta)
  qed
  then obtain recs where recs: "map_exn ?f (enumerate 0 xs) = Inr recs"
    using map_exn_total by blast
  then have "length recs = length xs"
    and "\<forall>i < length xs. createNewOverride cid (xs ! i) i = Inr (recs ! i)"
    by (simp_all add: map_exn_Inr_iff nth_enumerate_eq)
  with recs show ?thesis by (simp add: submissionOverrides_def)
qed

section \<open>The integer form of a decimal certificate id\<close>

lemma below_ten: "d < 10 \<Longrightarrow> d \<in> {0, 1, 2, 3, 4, 5, 6, 7, 8, 9 :: nat}"
  by auto

lemma skip_space_ascii:
  assumes "\<not> space1 a" and "(of_char a :: nat) < 128"
  shows "skip_space (a # s) = a # s"
proof -
  from assms(2) have lead: "a \<noteq> CHR 0xC2" "a \<noteq> CHR 0xE1" "a \<noteq> CHR 0xE2" "a \<noteq> CHR 0xE3"
    "a \<noteq> CHR 0xEF"
    by auto
  show ?thesis
  proof (cases s)
    case Nil
    with assms(1) show ?thesis by simp
  next
    case (Cons b t)
    then show ?thesis
      using assms(1) lead by (cases t) (simp_all add: space2_def space3_def)
  qed
qed

lemma digit_char_cases:
  assumes "d < 10"
  shows "digit_val (digit_char d) = Some d \<and> \<not> space1 (digit_char d)
         \<and> (of_char (digit_char d) :: nat) < 128
         \<and> digit_char d \<notin> {CHR ''-'', CHR ''+'', CHR ''x'', CHR ''X''}"
proof -
  from assms have "d \<in> {0, 1, 2, 3, 4, 5, 6, 7, 8, 9}" by auto
  then show ?thesis
    by (auto simp: digit_char_def digit_val_def space1_def)
qed

lemma nat_digits_chars:
  "\<forall>c \<in> set (nat_digits n). \<exists>d < 10. c = digit_char d"
proof (induction n rule: nat_digits.induct)
  case (1 n)
  show ?case
  proof (cases "n < 10")
    case True
    then show ?thesis by (auto simp: nat_digits.simps[of n])
  next
    case False
    have "\<exists>d < 10. digit_char (n mod 10) = digit_char d"
      by (rule exI[of _ "n mod 10"]) simp
    with False 1 show ?thesis
      by (auto simp: nat_digits.simps[of n])
  qed
qed

lemma nat_digits_not_Nil: "nat_digits n \<noteq> []"
  by (simp add: nat_digits.simps[of n])

lemma radix_digits_append:
  assumes "\<forall>c \<in> set xs. \<exists>d < 10. c = digit_char d"
  shows "radix_digits 10 (xs @ s) = map (\<lambda>c. of_char c - 48) xs @ radix_digits 10 s"
  using assms
proof (induction xs)
  case Nil
  then show ?case by simp
next
  case (Cons c xs)
  then obtain d where d: "d < 10" "c = digit_char d" by auto
  then have "d \<in> {0, 1, 2, 3, 4, 5, 6, 7, 8, 9}" by auto
  then have "(of_char c :: nat) - 48 = d"
    using d(2) by (auto simp: digit_char_def)
  with Cons d digit_char_cases[OF d(1)] show ?case by simp
qed

lemma radix_value_nat_digits:
  "radix_value 10 (map (\<lambda>c. of_char c - 48) (nat_digits n)) = n"
proof (induction n rule: nat_digits.induct)
  case (1 n)
  show ?case
  proof (cases "n < 10")
    case True
    then have "n \<in> {0, 1, 2, 3, 4, 5, 6, 7, 8, 9}" by auto
    then show ?thesis
      by (auto simp: nat_digits.simps[of n] radix_value_def digit_char_def)
  next
    case False
    have "n mod 10 \<in> {0, 1, 2, 3, 4, 5, 6, 7, 8, 9}"
      by (rule below_ten) simp
    then have last: "(of_char (digit_char (n mod 10)) :: nat) - 48 = n mod 10"
      by (auto simp: digit_char_def)
    from False 1 have "radix_value 10 (map (\<lambda>c. of_char c - 48) (nat_digits (n div 10))) = n div 10"
      by simp
    with False last show ?thesis
      by (simp add: nat_digits.simps[of n] radix_value_def)
  qed
qed

lemma parseInt_nat_digits: "parseInt (nat_digits n) = Num (int n)"
proof -
  obtain c cs where s: "nat_digits n = c # cs"
    using nat_digits_not_Nil[of n] by (cases "nat_digits n") auto
  with nat_digits_chars[of n] obtain d where d: "d < 10" "c = digit_char d" by auto
  note c = digit_char_cases[OF d(1), folded d(2)]
  have nohex: "take 2 (c # cs) \<noteq> ''0x''" "take 2 (c # cs) \<noteq> ''0X''"
  proof -
    show "take 2 (c # cs) \<noteq> ''0x''"
    proof (cases cs)
      case Nil
      then show ?thesis by simp
    next
      case (Cons c' cs')
      with s nat_digits_chars[of n] obtain d' where "d' < 10" "c' = digit_char d'" by auto
      with digit_char_cases[of d'] have "c' \<noteq> CHR ''x''" by auto
      with Cons show ?thesis by simp
    qed
    show "take 2 (c # cs) \<noteq> ''0X''"
    proof (cases cs)
      case Nil
      then show ?thesis by simp
    next
      case (Cons c' cs')
      with s nat_digits_chars[of n] obtain d' where "d' < 10" "c' = digit_char d'" by auto
      with digit_char_cases[of d'] have "c' \<noteq> CHR ''X''" by auto
      with Cons show ?thesis by simp
    qed
  qed
  have digits: "radix_digits 10 (c # cs) = map (\<lambda>c. of_char c - 48) (c # cs)"
    using radix_digits_append[of "nat_digits n" "[]"] nat_digits_chars[of n] s by simp
  have val: "radix_value 10 (map (\<lambda>c. of_char c - 48) (c # cs)) = n"
    using radix_value_nat_digits[of n] s by simp
  from c have c1: "\<not> space1 c" "(of_char c :: nat) < 128" "c \<noteq> CHR ''-''" "c \<noteq> CHR ''+''"
    by auto
  have ws: "skip_space (c # cs) = c # cs"
    using c1 by (simp add: skip_space_ascii)
  have sign: "take 1 (c # cs) \<noteq> ''-''" "take 1 (c # cs) \<noteq> ''+''"
    using c1 by simp_all
  have "parseInt (c # cs)
          = (if radix_digits 10 (c # cs) = [] then NaN
             else Num (1 * int (radix_value 10 (radix_digits 10 (c # cs)))))"
    unfolding parseInt_def Let_def ws
    by (simp only: sign nohex if_False simp_thms)
  with digits val have "parseInt (c # cs) = Num (int n)"
    by (simp del: radix_digits.simps)
  with s show ?thesis by simp
qed

text \<open>
  C1. For every array of intents that pass the validation and every certificate id, the
  batch has one record for each intent, in the order of the array; the record at
  position \<open>i\<close> (counted from 0) is built from the intent at that position and has
  \<open>OrderId = i + 1\<close> and \<open>OverrideIndex = i + 1\<close>. Every record carries the same
  \<open>SystemOverrideCertificateId\<close>. It is \<open>parseInt(certificateId)\<close>, the integer the
  certificate id starts with or \<open>NaN\<close> when it starts with none, whenever that is a safe
  integer or \<open>NaN\<close>; for a certificate id that is the decimal digits of a safe integer,
  it is that integer.
\<close>

theorem batch_order_and_certificate:
  assumes "\<forall>obj \<in> set xs. valid_intent obj"
  shows "\<exists>recs v. submissionOverrides cid xs = Inr recs \<and> length recs = length xs
           \<and> (\<forall>i < length xs. \<exists>kvs. recs ! i = Object kvs
                 \<and> map_of kvs ''TagNumber'' = Some (Prim (field (xs ! i) ''tagNumber''))
                 \<and> map_of kvs ''OrderId'' = Some (Prim (Num (int i + 1)))
                 \<and> map_of kvs ''OverrideIndex'' = Some (Prim (Num (int i + 1)))
                 \<and> map_of kvs ''SystemOverrideCertificateId'' = Some (Prim v))
           \<and> (safe_number (parseInt cid) \<longrightarrow> v = parseInt cid)
           \<and> (\<forall>n. safe_integer (int n) \<and> cid = nat_digits n \<longrightarrow> v = Num (int n))"
proof -
  from submissionOverrides_valid[OF assms, of cid] obtain recs where
    recs: "submissionOverrides cid xs = Inr recs" "length recs = length xs"
      "\<forall>i < length xs. createNewOverride cid (xs ! i) i = Inr (recs ! i)"
    by blast
  have "\<exists>kvs. recs ! i = Object kvs
                 \<and> map_of kvs ''TagNumber'' = Some (Prim (field (xs ! i) ''tagNumber''))
                 \<and> map_of kvs ''OrderId'' = Some (Prim (Num (int i + 1)))
                 \<and> map_of kvs ''OverrideIndex'' = Some (Prim (Num (int i + 1)))
                 \<and> map_of kvs ''SystemOverrideCertificateId'' = Some (Prim (parseInt cid))"
    if "i < length xs" for i
  proof -
    from that assms have "valid_intent (xs ! i)" by simp
    from createNewOverride_order[OF this, of cid i] recs(3) that
    show ?thesis by auto
  qed
  moreover have "\<forall>n. safe_integer (int n) \<and> cid = nat_digits n \<longrightarrow> parseInt cid = Num (int n)"
    by (simp add: parseInt_nat_digits)
  ultimately show ?thesis using recs(1,2) by blast
qed

lemma valid_valve: "valid_intent valve"
  by (simp add: valid_intent_def required_fields_def valve_def field_def)

lemma valid_tag2: "valid_intent tag2"
  by (simp add: valid_intent_def required_fields_def tag2_def field_def)

text \<open>
  The two intents of the usage notes' shape, for certificate 1054470: the second record
  has the order fields 2 and the certificate id 1054470.
\<close>

theorem batch_order_and_certificate_witness:
  "\<exists>recs. submissionOverrides ''1054470'' [valve, tag2] = Inr recs \<and> length recs = 2
     \<and> (\<exists>kvs. recs ! 1 = Object kvs
           \<and> map_of kvs ''TagNumber'' = Some (Prim (Str ''TAG-2''))
           \<and> map_of kvs ''OrderId'' = Some (Prim (Num 2))
           \<and> map_of kvs ''OverrideIndex'' = Some (Prim (Num 2))
           \<and> map_of kvs ''SystemOverrideCertificateId'' = Some (Prim (Num 1054470)))"
proof -
  have v: "\<forall>obj \<in> set [valve, tag2]. valid_intent obj"
    by (simp add: valid_valve valid_tag2)
  from batch_order_and_certificate[OF v, of "''1054470''"] obtain recs v where
    r: "submissionOverrides ''1054470'' [valve, tag2] = Inr recs" "length recs = length [valve, tag2]"
     "\<forall>i < length [valve, tag2]. \<exists>kvs. recs ! i = Object kvs
                 \<and> map_of kvs ''TagNumber'' = Some (Prim (field ([valve, tag2] ! i) ''tagNumber''))
                 \<and> map_of kvs ''OrderId'' = Some (Prim (Num (int i + 1)))
                 \<and> map_of kvs ''OverrideIndex'' = Some (Prim (Num (int i + 1)))
                 \<and> map_of kvs ''SystemOverrideCertificateId'' = Some (Prim v)"
     "safe_number (parseInt ''1054470'') \<longrightarrow> v = parseInt ''1054470''"
     "\<forall>n. safe_integer (int n) \<and> ''1054470'' = nat_digits n \<longrightarrow> v = Num (int n)"
    by blast
  have dec: "''1054470'' = nat_digits 1054470"
    by (simp add: nat_digits.simps digit_char_def)
  have "safe_integer (int 1054470)"
    by (simp add: safe_integer_def)
  with r(5) dec have v: "v = Num 1054470"
    by fastforce
  have "parseInt ''1054470'' = Num 1054470"
    by (simp add: parseInt_def space1_def space2_def space3_def digit_val_def radix_value_def)
  then have "safe_number (parseInt ''1054470'')"
    by (simp add: safe_integer_def)
  with r(4) have "v = parseInt ''1054470''" by simp
  from r(3)[rule_format, of 1] v have "\<exists>kvs. recs ! 1 = Object kvs
           \<and> map_of kvs ''TagNumber'' = Some (Prim (Str ''TAG-2''))
           \<and> map_of kvs ''OrderId'' = Some (Prim (Num 2))
           \<and> map_of kvs ''OverrideIndex'' = Some (Prim (Num 2))
           \<and> map_of kvs ''SystemOverrideCertificateId'' = Some (Prim (Num 1054470))"
    by (simp add: tag2_def field_def)
  with r(1,2) show ?thesis by simp
qed

section \<open>Rejection of invalid input\<close>

lemma nat_digits_small: "n < 10 \<Longrightarrow> nat_digits n = [digit_char n]"
  by (simp add: nat_digits.simps)

lemma error_line_missing:
  "error_line p = (case p of (i, obj) \<Rightarrow> ''Override '' @ nat_digits (i + 1) @ '': ''
                      @ join '', '' (map (\<lambda>f. f @ '' is required'') (missing_fields obj)))"
  by (simp add: error_line_def overrideErrors_filter case_prod_beta)

lemma addOverride_invalid:
  assumes "\<exists>obj \<in> set (overridesArray d). \<not> valid_intent obj"
  shows "addOverride fetch now cid d =
           ([], Thrown (Error (''Validation failed:'' @ [CHR 0x0A]
                                @ join [CHR 0x0A] (validationErrors (overridesArray d)))))"
proof -
  from assms have "validationErrors (overridesArray d) \<noteq> []"
    by (simp add: validationErrors_Nil)
  then show ?thesis by (simp add: addOverride_def Let_def)
qed

text \<open>
  C2, as amended. For every input (no argument, a single intent or an array) in which at
  least one intent has a required property that is left out or holds a falsy value,
  \<open>addOverride\<close> throws the validation error, having issued no request. The message has
  one line for each such intent, in the order of the array, with the intent's position
  counted from 1, and the line names exactly the required properties of that intent that
  are left out or falsy: all of them, in the order of the checks. The message depends on
  the six properties alone; no catalog takes part.
\<close>

theorem validation_names_missing_fields:
  assumes "\<exists>obj \<in> set (overridesArray d). \<not> valid_intent obj"
  shows "addOverride fetch now cid d =
           ([], Thrown (Error (''Validation failed:'' @ [CHR 0x0A] @ join [CHR 0x0A]
              (map (\<lambda>(i, obj). ''Override '' @ nat_digits (i + 1) @ '': ''
                       @ join '', '' (map (\<lambda>f. f @ '' is required'') (missing_fields obj)))
                 (filter (\<lambda>(i, obj). \<not> valid_intent obj) (enumerate 0 (overridesArray d)))))))"
proof -
  have "validationErrors (overridesArray d) =
          map (\<lambda>(i, obj). ''Override '' @ nat_digits (i + 1) @ '': ''
                       @ join '', '' (map (\<lambda>f. f @ '' is required'') (missing_fields obj)))
            (filter (\<lambda>(i, obj). \<not> valid_intent obj) (enumerate 0 (overridesArray d)))"
    unfolding validationErrors_filter
    by (simp add: error_line_missing overrideErrors_Nil case_prod_unfold)
  with addOverride_invalid[OF assms] show ?thesis by simp
qed

lemma valid_blank_tag: "\<not> valid_intent blank_tag"
  by (simp add: valid_intent_def required_fields_def blank_tag_def field_def)

text \<open>
  A valid intent followed by one with an empty \<open>tagNumber\<close> and no \<open>description\<close>: one
  line, for the second intent, naming the two properties.
\<close>

theorem validation_names_missing_fields_witness:
  "addOverride no_response 0 ''1054470'' (Many [valve, blank_tag]) =
     ([], Thrown (Error (''Validation failed:'' @ [CHR 0x0A]
            @ ''Override 2: tagNumber is required, description is required'')))"
proof -
  have "\<exists>obj \<in> set (overridesArray (Many [valve, blank_tag])). \<not> valid_intent obj"
    by (simp add: overridesArray_def valid_blank_tag)
  from validation_names_missing_fields[OF this, of no_response 0 "''1054470''"] show ?thesis
    apply (simp add: overridesArray_def valid_blank_tag valid_valve)
    apply (simp add: missing_fields_def required_fields_def blank_tag_def field_def
        nat_digits_small digit_char_def)
    done
qed

text \<open>
  C2 as first stated fails: it has the message name the properties an intent lacks, by a
  check of presence alone. Here the intent lacks \<open>description\<close> and has a \<open>tagNumber\<close>,
  the empty string; the message names \<open>tagNumber\<close> all the same.
\<close>

theorem validation_names_missing_fields_counterexample:
  "lacks blank_tag ''description'' \<and> \<not> lacks blank_tag ''tagNumber'' \<and>
   addOverride no_response 0 ''1054470'' (Single blank_tag) =
     ([], Thrown (Error (''Validation failed:'' @ [CHR 0x0A]
            @ ''Override 1: tagNumber is required, description is required'')))"
  by (simp add: lacks_def addOverride_def overridesArray_def validationErrors_def overrideErrors_def
        blank_tag_def field_def nat_digits_small digit_char_def)

text \<open>
  C4. For every input with at least one intent that does not pass the validation, the call
  ends with the validation error thrown, and the list of requests issued is empty. The
  result is the same whatever the network and the clock are: neither is consulted.
\<close>

theorem invalid_input_sends_nothing:
  assumes "\<exists>obj \<in> set (overridesArray d). \<not> valid_intent obj"
  shows "\<exists>msg. \<forall>fetch now. addOverride fetch now cid d = ([], Thrown (Error msg))"
  using addOverride_invalid[OF assms] by blast

text \<open>
  A valid intent followed by an invalid one: nothing is sent.
\<close>

theorem invalid_input_sends_nothing_witness:
  "\<exists>msg. \<forall>fetch now. addOverride fetch now ''1054470'' (Many [valve, blank_tag]) = ([], Thrown (Error msg))"
proof -
  have "\<exists>obj \<in> set (overridesArray (Many [valve, blank_tag])). \<not> valid_intent obj"
    by (simp add: overridesArray_def valid_blank_tag)
  from invalid_input_sends_nothing[OF this] show ?thesis .
qed

lemma thrown_independent:
  "snd (addOverride fetch now cid d) = Thrown e
     \<longleftrightarrow> snd (addOverride fetch' now' cid d) = Thrown e"
  by (simp add: addOverride_def Let_def split: sum.splits fetch_result.splits)

lemma payload_independent:
  "map (\<lambda>r. map_of (body r) ''OverridesJson'') (fst (addOverride fetch now cid d))
     = map (\<lambda>r. map_of (body r) ''OverridesJson'') (fst (addOverride fetch' now' cid d))"
  by (simp add: addOverride_def Let_def formData_def split: sum.splits)

text \<open>
  C9. A single intent and the array holding just that intent give the same result: the
  same requests, with the same payload, and the same outcome. Also when the two calls
  differ in the network and the clock, one throws a given error exactly when the other
  does, and the \<open>OverridesJson\<close> entries of the requests they issue are the same.
\<close>

theorem single_intent_as_array:
  "addOverride fetch now cid (Single x) = addOverride fetch now cid (Many [x])
   \<and> (snd (addOverride fetch now cid (Single x)) = Thrown e
        \<longleftrightarrow> snd (addOverride fetch' now' cid (Many [x])) = Thrown e)
   \<and> map (\<lambda>r. map_of (body r) ''OverridesJson'') (fst (addOverride fetch now cid (Single x)))
       = map (\<lambda>r. map_of (body r) ''OverridesJson'')
           (fst (addOverride fetch' now' cid (Many [x])))"
proof -
  have same: "addOverride f n cid (Single x) = addOverride f n cid (Many [x])" for f n
    by (simp add: addOverride_def overridesArray_def)
  show ?thesis
    using same thrown_independent[of fetch now cid "Many [x]" e fetch' now']
      payload_independent[of fetch now cid "Many [x]" fetch' now']
    by simp
qed

text \<open>
  C8. An intent that has \<open>tagNumber\<close> or \<open>description\<close> as the empty string, or one of
  \<open>typeId\<close>, \<open>methodId\<close>, \<open>appliedStateId\<close>, \<open>removedStateId\<close> as 0, is rejected: the
  property is on the object, the call throws the validation error, and the line of the
  message for that intent says the property is required.
\<close>

theorem falsy_field_rejected:
  assumes i: "i < length (overridesArray d)" and obj: "obj = overridesArray d ! i"
    and falsy: "(f \<in> {''tagNumber'', ''description''} \<and> obj f = Some (Str ''''))
              \<or> (f \<in> {''typeId'', ''methodId'', ''appliedStateId'', ''removedStateId''}
                  \<and> obj f = Some (Num 0))"
  shows "\<not> lacks obj f \<and>
         (\<exists>lines errs.
            addOverride fetch now cid d =
              ([], Thrown (Error (''Validation failed:'' @ [CHR 0x0A] @ join [CHR 0x0A] lines)))
            \<and> (''Override '' @ nat_digits (i + 1) @ '': '' @ join '', '' errs) \<in> set lines
            \<and> (f @ '' is required'') \<in> set errs)"
proof -
  from falsy have req: "f \<in> set required_fields" and nt: "\<not> truthy (field obj f)"
    and present: "\<not> lacks obj f"
    by (auto simp: required_fields_def field_def lacks_def)
  then have miss: "f \<in> set (missing_fields obj)"
    by (simp add: missing_fields_def)
  then have named: "(f @ '' is required'') \<in> set (overrideErrors obj)"
    by (simp add: overrideErrors_filter)
  then have ne: "overrideErrors obj \<noteq> []" by auto
  from i obj have mem: "obj \<in> set (overridesArray d)" by simp
  from ne have inv: "\<not> valid_intent obj" by (simp add: overrideErrors_Nil)
  from i obj have "(i, obj) \<in> set (enumerate 0 (overridesArray d))"
    by (simp add: in_set_enumerate_eq)
  with ne have "error_line (i, obj) \<in> set (validationErrors (overridesArray d))"
    by (force simp: validationErrors_filter)
  then have line: "(''Override '' @ nat_digits (i + 1) @ '': '' @ join '', '' (overrideErrors obj))
      \<in> set (validationErrors (overridesArray d))"
    by (simp add: error_line_def)
  from mem inv have "\<exists>x \<in> set (overridesArray d). \<not> valid_intent x" by blast
  from addOverride_invalid[OF this, of fetch now cid] line named present
  show ?thesis by blast
qed

text \<open>
  An intent with \<open>typeId: 0\<close> in second place.
\<close>

theorem falsy_field_rejected_witness:
  "\<not> lacks zero_type ''typeId'' \<and>
   (\<exists>lines errs.
      addOverride no_response 0 ''1054470'' (Many [valve, zero_type]) =
        ([], Thrown (Error (''Validation failed:'' @ [CHR 0x0A] @ join [CHR 0x0A] lines)))
      \<and> ''Override 2: '' @ join '', '' errs \<in> set lines
      \<and> ''typeId is required'' \<in> set errs)"
proof -
  have a: "1 < length (overridesArray (Many [valve, zero_type]))"
    and b: "zero_type = overridesArray (Many [valve, zero_type]) ! 1"
    and c: "(''typeId'' \<in> {''tagNumber'', ''description''} \<and> zero_type ''typeId'' = Some (Str ''''))
              \<or> (''typeId'' \<in> {''typeId'', ''methodId'', ''appliedStateId'', ''removedStateId''}
                  \<and> zero_type ''typeId'' = Some (Num 0))"
    by (simp_all add: overridesArray_def zero_type_def)
  from falsy_field_rejected[OF a b c, of no_response 0 "''1054470''"] show ?thesis
    by (simp add: nat_digits_small digit_char_def)
qed

section \<open>The payload\<close>






lemma addOverride_valid:
  assumes "\<forall>obj \<in> set (overridesArray d). valid_intent obj"
  shows "\<exists>recs. submissionOverrides cid (overridesArray d) = Inr recs
           \<and> length recs = length (overridesArray d)
           \<and> (\<forall>i < length (overridesArray d).
                  createNewOverride cid (overridesArray d ! i) i = Inr (recs ! i))
           \<and> addOverride fetch now cid d =
               ([\<lparr>url = submitUrl cid, http_method = ''POST'', body = formData now cid recs\<rparr>],
                (case fetch \<lparr>url = submitUrl cid, http_method = ''POST'',
                              body = formData now cid recs\<rparr> of
                   Responded response \<Rightarrow>
                     if ok response then Resolved response
                     else Rejected (Error (''Server error: '' @ nat_digits (status response)
                                           @ '' '' @ statusText response))
                 | Failed e \<Rightarrow> Rejected e))"
proof -
  from submissionOverrides_valid[OF assms, of cid] obtain recs where
    recs: "submissionOverrides cid (overridesArray d) = Inr recs"
      "length recs = length (overridesArray d)"
      "\<forall>i < length (overridesArray d).
          createNewOverride cid (overridesArray d ! i) i = Inr (recs ! i)"
    by blast
  from assms have "validationErrors (overridesArray d) = []"
    by (simp add: validationErrors_Nil)
  with recs(1) have "addOverride fetch now cid d =
               ([\<lparr>url = submitUrl cid, http_method = ''POST'', body = formData now cid recs\<rparr>],
                (case fetch \<lparr>url = submitUrl cid, http_method = ''POST'',
                              body = formData now cid recs\<rparr> of
                   Responded response \<Rightarrow>
                     if ok response then Resolved response
                     else Rejected (Error (''Server error: '' @ nat_digits (status response)
                                           @ '' '' @ statusText response))
                 | Failed e \<Rightarrow> Rejected e))"
    by (simp add: addOverride_def Let_def)
  with recs show ?thesis by blast
qed





section \<open>The submission\<close>

lemma addOverride_length: "length (fst (addOverride fetch now cid d)) \<le> 1"
  by (simp add: addOverride_def Let_def split: sum.splits)

text \<open>
  C5, as amended. A call issues at most one request, and exactly one when every intent
  passes the validation; nothing is retried. When the response has a status from 200 to
  299 the promise resolves with that response. For every other response it is rejected
  with an error whose message is \<open>Server error:\<close>, the status code and the status text;
  the body of the response is not part of the error.
\<close>

theorem submission_outcome:
  "length (fst (addOverride fetch now cid d)) \<le> 1 \<and>
   ((\<forall>obj \<in> set (overridesArray d). valid_intent obj) \<longrightarrow>
    (\<exists>req. fst (addOverride fetch now cid d) = [req] \<and>
       (\<forall>r. fetch req = Responded r \<longrightarrow>
          (if 200 \<le> status r \<and> status r \<le> 299
           then snd (addOverride fetch now cid d) = Resolved r
           else snd (addOverride fetch now cid d)
                  = Rejected (Error (''Server error: '' @ nat_digits (status r) @ '' ''
                                     @ statusText r))))))"
proof (intro conjI impI)
  show "length (fst (addOverride fetch now cid d)) \<le> 1"
    by (rule addOverride_length)
next
  assume "\<forall>obj \<in> set (overridesArray d). valid_intent obj"
  from addOverride_valid[OF this, of cid fetch now] obtain recs where
    call: "addOverride fetch now cid d =
               ([\<lparr>url = submitUrl cid, http_method = ''POST'', body = formData now cid recs\<rparr>],
                (case fetch \<lparr>url = submitUrl cid, http_method = ''POST'',
                              body = formData now cid recs\<rparr> of
                   Responded response \<Rightarrow>
                     if ok response then Resolved response
                     else Rejected (Error (''Server error: '' @ nat_digits (status response)
                                           @ '' '' @ statusText response))
                 | Failed e \<Rightarrow> Rejected e))"
    by blast
  let ?req = "\<lparr>url = submitUrl cid, http_method = ''POST'', body = formData now cid recs\<rparr>"
  have "fst (addOverride fetch now cid d) = [?req]"
    by (simp add: call)
  moreover have "\<forall>r. fetch ?req = Responded r \<longrightarrow>
          (if 200 \<le> status r \<and> status r \<le> 299
           then snd (addOverride fetch now cid d) = Resolved r
           else snd (addOverride fetch now cid d)
                  = Rejected (Error (''Server error: '' @ nat_digits (status r) @ '' ''
                                     @ statusText r)))"
    by (simp add: call ok_def)
  ultimately show "\<exists>req. fst (addOverride fetch now cid d) = [req] \<and>
       (\<forall>r. fetch req = Responded r \<longrightarrow>
          (if 200 \<le> status r \<and> status r \<le> 299
           then snd (addOverride fetch now cid d) = Resolved r
           else snd (addOverride fetch now cid d)
                  = Rejected (Error (''Server error: '' @ nat_digits (status r) @ '' ''
                                     @ statusText r))))"
    by blast
qed

lemma nat_digits_500: "nat_digits 500 = ''500''"
  by (simp add: nat_digits.simps digit_char_def)

lemma valid_Single_valve: "\<forall>obj \<in> set (overridesArray (Single valve)). valid_intent obj"
  by (simp add: overridesArray_def valid_valve)

text \<open>
  A response with status 500: one request, and the rejection with the status line.
\<close>

theorem submission_outcome_witness:
  "length (fst (addOverride (answers rejection_closed) 0 ''1054470'' (Single valve))) = 1
   \<and> snd (addOverride (answers rejection_closed) 0 ''1054470'' (Single valve))
       = Rejected (Error ''Server error: 500 Internal Server Error'')"
proof -
  from submission_outcome[of "answers rejection_closed" 0 "''1054470''" "Single valve"] valid_Single_valve
  obtain req where
    r: "fst (addOverride (answers rejection_closed) 0 ''1054470'' (Single valve)) = [req]"
    "\<forall>r. answers rejection_closed req = Responded r \<longrightarrow>
          (if 200 \<le> status r \<and> status r \<le> 299
           then snd (addOverride (answers rejection_closed) 0 ''1054470'' (Single valve)) = Resolved r
           else snd (addOverride (answers rejection_closed) 0 ''1054470'' (Single valve))
                  = Rejected (Error (''Server error: '' @ nat_digits (status r) @ '' ''
                                     @ statusText r)))"
    by blast
  from r(2)[rule_format, of rejection_closed] r(1) show ?thesis
    by (simp add: answers_def rejection_closed_def nat_digits_500)
qed

lemma addOverride_answers_valve:
  "snd (addOverride (answers r) 0 ''1054470'' (Single valve))
     = (if ok r then Resolved r
        else Rejected (Error (''Server error: '' @ nat_digits (status r) @ '' '' @ statusText r)))"
  using addOverride_valid[OF valid_Single_valve, of "''1054470''" "answers r" 0]
  by (auto simp: answers_def)

text \<open>
  C5 as first stated fails where it has the error surface the body: two rejections with
  different bodies and the same status line give the same error.
\<close>

theorem submission_outcome_counterexample:
  "responseBody rejection_duplicate \<noteq> responseBody rejection_closed
   \<and> snd (addOverride (answers rejection_duplicate) 0 ''1054470'' (Single valve))
       = Rejected (Error ''Server error: 500 Internal Server Error'')
   \<and> snd (addOverride (answers rejection_closed) 0 ''1054470'' (Single valve))
       = Rejected (Error ''Server error: 500 Internal Server Error'')"
  by (simp add: addOverride_answers_valve ok_def rejection_duplicate_def rejection_closed_def
      nat_digits_500)

text \<open>
  C6, as amended. Before the submission a batch is checked for the six required
  properties only; no catalog is consulted. For every catalog and every input whose
  intents all pass that check, the request is issued and no local error is thrown, also
  when the catalog says that an intent's method is not a child of its type or that a
  state is not a child of its method. Such rules are left to the server.
\<close>

theorem no_catalog_check:
  assumes "\<forall>obj \<in> set (overridesArray d). valid_intent obj"
    and "obj \<in> set (overridesArray d)" and "\<not> consistent cat obj"
  shows "\<exists>req. fst (addOverride fetch now cid d) = [req] \<and> url req = submitUrl cid
           \<and> (\<forall>e. snd (addOverride fetch now cid d) \<noteq> Thrown e)"
proof -
  from addOverride_valid[OF assms(1), of cid fetch now] obtain recs where
    call: "addOverride fetch now cid d =
               ([\<lparr>url = submitUrl cid, http_method = ''POST'', body = formData now cid recs\<rparr>],
                (case fetch \<lparr>url = submitUrl cid, http_method = ''POST'',
                              body = formData now cid recs\<rparr> of
                   Responded response \<Rightarrow>
                     if ok response then Resolved response
                     else Rejected (Error (''Server error: '' @ nat_digits (status response)
                                           @ '' '' @ statusText response))
                 | Failed e \<Rightarrow> Rejected e))"
    by blast
  show ?thesis
    by (simp add: call split: fetch_result.splits)
qed

lemma inconsistent_valve: "\<not> consistent method1_of_type2 valve"
  by (simp add: consistent_def method1_of_type2_def valve_def field_def)

text \<open>
  The hardware bypass, type 1 and method 1, under the catalog where method 1 belongs to
  type 2: the request goes out.
\<close>

theorem no_catalog_check_witness:
  "\<exists>req. fst (addOverride (answers accepted) 0 ''1054470'' (Single valve)) = [req]
     \<and> url req = ''https://eptw-training.sakhalinenergy.ru/SOC/EditOverrides/1054470''
     \<and> (\<forall>e. snd (addOverride (answers accepted) 0 ''1054470'' (Single valve)) \<noteq> Thrown e)"
proof -
  have "valve \<in> set (overridesArray (Single valve))"
    by (simp add: overridesArray_def)
  from no_catalog_check[OF valid_Single_valve this inconsistent_valve, of "answers accepted" 0 "''1054470''"]
  show ?thesis by (simp add: submitUrl_def)
qed

text \<open>
  C6 as first stated fails: under the catalog where method 1 belongs to type 2, the intent
  with type 1 and method 1 is inconsistent, and still one request is issued and the
  promise resolves with the server's response.
\<close>

theorem no_catalog_check_counterexample:
  "\<not> consistent method1_of_type2 valve
   \<and> length (fst (addOverride (answers accepted) 0 ''1054470'' (Single valve))) = 1
   \<and> snd (addOverride (answers accepted) 0 ''1054470'' (Single valve)) = Resolved accepted"
proof -
  from addOverride_valid[OF valid_Single_valve, of "''1054470''" "answers accepted" 0]
  have "length (fst (addOverride (answers accepted) 0 ''1054470'' (Single valve))) = 1"
    by auto
  then show ?thesis
    by (simp add: inconsistent_valve addOverride_answers_valve ok_def accepted_def)
qed

section \<open>The additional values\<close>

lemma serialize_Object_lookup:
  assumes "distinct (map fst kvs)"
  shows "\<exists>kvs'. serialize (Object kvs) = Some (JObject kvs')
           \<and> (\<forall>k. map_of kvs' k = Option.bind (map_of kvs k) serialize)"
proof -
  let ?g = "\<lambda>(k, j). map_option (Pair k) j"
  have "map_of (List.map_filter ?g (map (map_prod id serialize) kvs)) k
          = Option.bind (map_of kvs k) serialize" for k
    using assms
  proof (induction kvs)
    case Nil
    then show ?case by (simp add: map_filter_simps)
  next
    case (Cons p kvs)
    obtain a v where p: "p = (a, v)" by (cases p)
    from Cons.prems p have notin: "a \<notin> fst ` set kvs" and d: "distinct (map fst kvs)"
      by simp_all
    from notin have none: "map_of kvs a = None"
      by (simp add: map_of_eq_None_iff)
    show ?case
      using Cons.IH[OF d] p none
      by (cases "serialize v") (auto simp: map_filter_simps)
  qed
  then show ?thesis by simp
qed

lemma createNewOverride_shape:
  assumes "createNewOverride cid obj i = Inr r"
  shows "\<exists>kvs. r = Object kvs \<and> distinct (map fst kvs)
           \<and> map_of kvs ''AdditionalValueRemovedState'' = Some (Prim Null)
           \<and> map_of kvs ''AdditionalValueAppliedState''
               = Some (Prim (js_or (field obj ''additionalValue'') (Str '''')))"
  using assms
  by (auto simp: createNewOverride_def bind_exn_def split: sum.splits)

lemma createNewOverride_single_shape:
  "\<exists>kvs. createNewOverride_single now cid obj i = Inr (Object kvs) \<and> distinct (map fst kvs)
           \<and> map_of kvs ''AdditionalValueRemovedState'' = Some (Prim Null)
           \<and> map_of kvs ''AdditionalValueAppliedState''
               = Some (Prim (js_or (field obj ''additionalValue'') (Str '''')))"
proof -
  have t: "toString (js_or v (Num n)) = Inr (ToString (js_or v (Num n)))" for v n
    by (cases v) (simp_all add: js_or_def)
  show ?thesis
    by (simp add: createNewOverride_single_def bind_exn_def t)
qed

lemma serialized_additional_values:
  assumes "distinct (map fst kvs)"
    and "map_of kvs ''AdditionalValueRemovedState'' = Some (Prim Null)"
    and "map_of kvs ''AdditionalValueAppliedState''
               = Some (Prim (js_or (field obj ''additionalValue'') (Str '''')))"
  shows "\<exists>js. serialize (Object kvs) = Some (JObject js)
           \<and> map_of js ''AdditionalValueRemovedState'' = Some JNull
           \<and> map_of js ''AdditionalValueAppliedState''
               = serialize (Prim (js_or (field obj ''additionalValue'') (Str '''')))
           \<and> (lacks obj ''additionalValue''
                \<longrightarrow> map_of js ''AdditionalValueAppliedState'' = Some (JString ''''))"
proof -
  from serialize_Object_lookup[OF assms(1)] obtain js where
    js: "serialize (Object kvs) = Some (JObject js)"
      "\<forall>k. map_of js k = Option.bind (map_of kvs k) serialize"
    by blast
  have "lacks obj ''additionalValue''
          \<Longrightarrow> js_or (field obj ''additionalValue'') (Str '''') = Str ''''"
    by (simp add: lacks_def field_def js_or_def)
  with js assms(2,3) show ?thesis by simp
qed

lemma field_upd_other: "k \<noteq> f \<Longrightarrow> field (obj(k \<mapsto> v)) f = field obj f"
  by (simp add: field_def)

lemma read_fields_upd:
  assumes "k \<notin> set read_fields"
  shows "field (obj(k \<mapsto> v)) ''tagNumber'' = field obj ''tagNumber''"
    "field (obj(k \<mapsto> v)) ''description'' = field obj ''description''"
    "field (obj(k \<mapsto> v)) ''typeId'' = field obj ''typeId''"
    "field (obj(k \<mapsto> v)) ''methodId'' = field obj ''methodId''"
    "field (obj(k \<mapsto> v)) ''appliedStateId'' = field obj ''appliedStateId''"
    "field (obj(k \<mapsto> v)) ''removedStateId'' = field obj ''removedStateId''"
    "field (obj(k \<mapsto> v)) ''comment'' = field obj ''comment''"
    "field (obj(k \<mapsto> v)) ''additionalValue'' = field obj ''additionalValue''"
    "field (obj(k \<mapsto> v)) ''typeTitle'' = field obj ''typeTitle''"
    "field (obj(k \<mapsto> v)) ''methodTitle'' = field obj ''methodTitle''"
    "field (obj(k \<mapsto> v)) ''appliedStateTitle'' = field obj ''appliedStateTitle''"
    "field (obj(k \<mapsto> v)) ''removedStateTitle'' = field obj ''removedStateTitle''"
  using assms by (auto simp: read_fields_def intro!: field_upd_other)

lemma createNewOverride_ignores:
  assumes "k \<notin> set read_fields"
  shows "createNewOverride cid (obj(k \<mapsto> v)) i = createNewOverride cid obj i"
    and "createNewOverride_single now cid (obj(k \<mapsto> v)) i = createNewOverride_single now cid obj i"
  by (simp_all add: createNewOverride_def createNewOverride_single_def read_fields_upd[OF assms])

lemma additionalValue_upd:
  "f \<noteq> ''additionalValue'' \<Longrightarrow> field (obj(''additionalValue'' \<mapsto> v)) f = field obj f"
  by (simp add: field_def)

lemma createNewOverride_additionalValue_only:
  "map_sum id (without ''AdditionalValueAppliedState'')
       (createNewOverride cid (obj(''additionalValue'' \<mapsto> v)) i)
     = map_sum id (without ''AdditionalValueAppliedState'') (createNewOverride cid obj i)"
  by (simp add: createNewOverride_def bind_exn_def additionalValue_upd split: sum.splits)

lemma createNewOverride_single_additionalValue_only:
  "map_sum id (without ''AdditionalValueAppliedState'')
       (createNewOverride_single now cid (obj(''additionalValue'' \<mapsto> v)) i)
     = map_sum id (without ''AdditionalValueAppliedState'') (createNewOverride_single now cid obj i)"
  by (simp add: createNewOverride_single_def bind_exn_def additionalValue_upd split: sum.splits)

text \<open>
  C10. In the record either builder makes, as serialized, \<open>AdditionalValueRemovedState\<close>
  is \<open>null\<close> whatever the intent holds, and \<open>AdditionalValueAppliedState\<close> is the intent's
  \<open>additionalValue\<close>, or the empty string when that is left out (or falsy). A property of
  the intent that is none of the twelve the builders read, such as a removed-side
  additional value, changes nothing in the record; and \<open>additionalValue\<close> changes no
  member but \<open>AdditionalValueAppliedState\<close>. The builder of \<open>addOverride\<close> returns a
  record for every intent that passes the validation; the earlier builder always does.
\<close>

theorem additional_values:
  "(\<forall>r. createNewOverride cid obj i = Inr r \<longrightarrow>
      (\<exists>js. serialize r = Some (JObject js)
         \<and> map_of js ''AdditionalValueRemovedState'' = Some JNull
         \<and> map_of js ''AdditionalValueAppliedState''
             = serialize (Prim (js_or (field obj ''additionalValue'') (Str '''')))
         \<and> (lacks obj ''additionalValue''
              \<longrightarrow> map_of js ''AdditionalValueAppliedState'' = Some (JString ''''))))
   \<and> (valid_intent obj \<longrightarrow> (\<exists>r. createNewOverride cid obj i = Inr r))
   \<and> (k \<notin> set read_fields
        \<longrightarrow> createNewOverride cid (obj(k \<mapsto> v)) i = createNewOverride cid obj i)
   \<and> map_sum id (without ''AdditionalValueAppliedState'')
          (createNewOverride cid (obj(''additionalValue'' \<mapsto> v)) i)
        = map_sum id (without ''AdditionalValueAppliedState'') (createNewOverride cid obj i)
   \<and> (\<exists>r js. createNewOverride_single now cid obj i = Inr r
         \<and> serialize r = Some (JObject js)
         \<and> map_of js ''AdditionalValueRemovedState'' = Some JNull
         \<and> map_of js ''AdditionalValueAppliedState''
             = serialize (Prim (js_or (field obj ''additionalValue'') (Str '''')))
         \<and> (lacks obj ''additionalValue''
              \<longrightarrow> map_of js ''AdditionalValueAppliedState'' = Some (JString '''')))
   \<and> (k \<notin> set read_fields
        \<longrightarrow> createNewOverride_single now cid (obj(k \<mapsto> v)) i
            = createNewOverride_single now cid obj i)
   \<and> map_sum id (without ''AdditionalValueAppliedState'')
          (createNewOverride_single now cid (obj(''additionalValue'' \<mapsto> v)) i)
        = map_sum id (without ''AdditionalValueAppliedState'')
            (createNewOverride_single now cid obj i)"
proof (intro conjI allI impI)
  fix r assume "createNewOverride cid obj i = Inr r"
  from createNewOverride_shape[OF this] obtain kvs where
    "r = Object kvs" "distinct (map fst kvs)"
    "map_of kvs ''AdditionalValueRemovedState'' = Some (Prim Null)"
    "map_of kvs ''AdditionalValueAppliedState''
               = Some (Prim (js_or (field obj ''additionalValue'') (Str '''')))"
    by blast
  with serialized_additional_values[of kvs obj]
  show "\<exists>js. serialize r = Some (JObject js)
         \<and> map_of js ''AdditionalValueRemovedState'' = Some JNull
         \<and> map_of js ''AdditionalValueAppliedState''
             = serialize (Prim (js_or (field obj ''additionalValue'') (Str '''')))
         \<and> (lacks obj ''additionalValue''
              \<longrightarrow> map_of js ''AdditionalValueAppliedState'' = Some (JString ''''))"
    by blast
next
  assume "valid_intent obj"
  from createNewOverride_order[OF this, of cid i]
  show "\<exists>r. createNewOverride cid obj i = Inr r" by blast
next
  assume "k \<notin> set read_fields"
  then show "createNewOverride cid (obj(k \<mapsto> v)) i = createNewOverride cid obj i"
    by (rule createNewOverride_ignores)
next
  show "map_sum id (without ''AdditionalValueAppliedState'')
          (createNewOverride cid (obj(''additionalValue'' \<mapsto> v)) i)
        = map_sum id (without ''AdditionalValueAppliedState'') (createNewOverride cid obj i)"
    by (rule createNewOverride_additionalValue_only)
next
  from createNewOverride_single_shape[of now cid obj i] obtain kvs where
    "createNewOverride_single now cid obj i = Inr (Object kvs)" "distinct (map fst kvs)"
    "map_of kvs ''AdditionalValueRemovedState'' = Some (Prim Null)"
    "map_of kvs ''AdditionalValueAppliedState''
               = Some (Prim (js_or (field obj ''additionalValue'') (Str '''')))"
    by blast
  with serialized_additional_values[of kvs obj]
  show "\<exists>r js. createNewOverride_single now cid obj i = Inr r
         \<and> serialize r = Some (JObject js)
         \<and> map_of js ''AdditionalValueRemovedState'' = Some JNull
         \<and> map_of js ''AdditionalValueAppliedState''
             = serialize (Prim (js_or (field obj ''additionalValue'') (Str '''')))
         \<and> (lacks obj ''additionalValue''
              \<longrightarrow> map_of js ''AdditionalValueAppliedState'' = Some (JString ''''))"
    by blast
next
  assume "k \<notin> set read_fields"
  then show "createNewOverride_single now cid (obj(k \<mapsto> v)) i
            = createNewOverride_single now cid obj i"
    by (rule createNewOverride_ignores)
next
  show "map_sum id (without ''AdditionalValueAppliedState'')
          (createNewOverride_single now cid (obj(''additionalValue'' \<mapsto> v)) i)
        = map_sum id (without ''AdditionalValueAppliedState'')
            (createNewOverride_single now cid obj i)"
    by (rule createNewOverride_single_additionalValue_only)
qed

lemma valid_forced_level: "valid_intent forced_level"
  by (simp add: valid_intent_def required_fields_def forced_level_def field_def)

text \<open>
  A forced value with \<open>additionalValue: "50%"\<close> and a further property
  \<open>additionalValueRemoved: "75%"\<close>, and the hardware bypass, which has neither.
\<close>

theorem additional_values_witness:
  "(\<exists>r js. createNewOverride ''1054470''
              (forced_level(''additionalValueRemoved'' \<mapsto> Str ''75%'')) 0 = Inr r
       \<and> serialize r = Some (JObject js)
       \<and> map_of js ''AdditionalValueRemovedState'' = Some JNull
       \<and> map_of js ''AdditionalValueAppliedState'' = Some (JString ''50%''))
   \<and> (\<exists>r js. createNewOverride ''1054470'' valve 0 = Inr r
       \<and> serialize r = Some (JObject js)
       \<and> map_of js ''AdditionalValueRemovedState'' = Some JNull
       \<and> map_of js ''AdditionalValueAppliedState'' = Some (JString ''''))"
proof
  note c = additional_values[of "''1054470''" forced_level 0 "''additionalValueRemoved''" "Str ''75%''" 0]
  have k: "''additionalValueRemoved'' \<notin> set read_fields"
    by (simp add: read_fields_def)
  from c k have same: "createNewOverride ''1054470''
              (forced_level(''additionalValueRemoved'' \<mapsto> Str ''75%'')) 0
          = createNewOverride ''1054470'' forced_level 0"
    by blast
  from c valid_forced_level obtain r where r: "createNewOverride ''1054470'' forced_level 0 = Inr r"
    by blast
  with c obtain js where "serialize r = Some (JObject js)"
    "map_of js ''AdditionalValueRemovedState'' = Some JNull"
    "map_of js ''AdditionalValueAppliedState''
             = serialize (Prim (js_or (field forced_level ''additionalValue'') (Str '''')))"
    by blast
  moreover have "field forced_level ''additionalValue'' = Str ''50%''"
    by (simp add: forced_level_def field_def)
  ultimately show "\<exists>r js. createNewOverride ''1054470''
              (forced_level(''additionalValueRemoved'' \<mapsto> Str ''75%'')) 0 = Inr r
       \<and> serialize r = Some (JObject js)
       \<and> map_of js ''AdditionalValueRemovedState'' = Some JNull
       \<and> map_of js ''AdditionalValueAppliedState'' = Some (JString ''50%'')"
    using same r by (simp add: js_or_def)
next
  note c = additional_values[of "''1054470''" valve 0 "''additionalValueRemoved''" "Str ''75%''" 0]
  have l: "lacks valve ''additionalValue''"
    by (simp add: lacks_def valve_def)
  from c valid_valve obtain r where r: "createNewOverride ''1054470'' valve 0 = Inr r"
    by blast
  with c l obtain js where "serialize r = Some (JObject js)"
    "map_of js ''AdditionalValueRemovedState'' = Some JNull"
    "map_of js ''AdditionalValueAppliedState'' = Some (JString '''')"
    by blast
  with r show "\<exists>r js. createNewOverride ''1054470'' valve 0 = Inr r
       \<and> serialize r = Some (JObject js)
       \<and> map_of js ''AdditionalValueRemovedState'' = Some JNull
       \<and> map_of js ''AdditionalValueAppliedState'' = Some (JString '''')"
    by blast
qed

end
